theory Spec2Isabelle
  imports Complex_Main "HOL-Library.Word" "HOL-Library.AList"
begin

unbundle bit_operations_syntax

section \<open>Python strings\<close>

text \<open>
  A Python \<open>str\<close> is modelled as a \<open>string\<close>: a list of characters, one \<open>char\<close>
  per code point, read as the code points 0 to 255 (Latin-1). On this range
  \<open>str.isspace\<close> holds for exactly twelve code points and the regular expression
  class \<open>\d\<close> matches exactly the ASCII digits.
\<close>

definition newline :: char where
  "newline = CHR 0x0A"

definition isspace :: "char \<Rightarrow> bool" where
  "isspace c = (of_char c \<in> set [9, 10, 11, 12, 13, 28, 29, 30, 31, 32, 133, 160 :: nat])"

definition lstrip :: "string \<Rightarrow> string" where
  "lstrip s = dropWhile isspace s"

definition rstrip :: "string \<Rightarrow> string" where
  "rstrip s = rev (dropWhile isspace (rev s))"

text \<open>\<open>s.strip()\<close>: whitespace removed at both ends.\<close>

definition strip :: "string \<Rightarrow> string" where
  "strip s = rstrip (lstrip s)"

definition startswith :: "string \<Rightarrow> string \<Rightarrow> bool" where
  "startswith s p = (take (length p) s = p)"

definition endswith :: "string \<Rightarrow> string \<Rightarrow> bool" where
  "endswith s p = (length p \<le> length s \<and> drop (length s - length p) s = p)"

text \<open>\<open>p in s\<close> on strings: \<open>p\<close> occurs in \<open>s\<close> as a contiguous run.\<close>

primrec str_contains :: "string \<Rightarrow> string \<Rightarrow> bool" where
  "str_contains [] p = (p = [])"
| "str_contains (c # cs) p = (startswith (c # cs) p \<or> str_contains cs p)"

text \<open>
  \<open>s.replace(old, new)\<close>: the occurrences of \<open>old\<close> are replaced from the left,
  without overlap. With an empty \<open>old\<close>, Python puts \<open>new\<close> before every
  character and at the end.
\<close>

function replace :: "string \<Rightarrow> string \<Rightarrow> string \<Rightarrow> string" where
  "replace s old new =
     (if old = [] then concat (map (\<lambda>c. new @ [c]) s) @ new
      else if s = [] then []
      else if startswith s old then new @ replace (drop (length old) s) old new
      else hd s # replace (tl s) old new)"
  by pat_completeness auto
termination
  by (relation "measure (\<lambda>(s, old, new). length s)") auto

text \<open>\<open>s.join(xs)\<close>.\<close>

fun join :: "string \<Rightarrow> string list \<Rightarrow> string" where
  "join sep [] = []"
| "join sep [x] = x"
| "join sep (x # y # ys) = x @ sep @ join sep (y # ys)"

text \<open>The decimal text of a natural number, as an f-string formats an \<open>int\<close>.\<close>

definition digit_char :: "nat \<Rightarrow> char" where
  "digit_char d = ''0123456789'' ! d"

function str_nat :: "nat \<Rightarrow> string" where
  "str_nat n = (if n < 10 then [digit_char n] else str_nat (n div 10) @ [digit_char (n mod 10)])"
  by pat_completeness auto
termination
  by (relation "measure (\<lambda>n. n)") auto

definition isdigit :: "char \<Rightarrow> bool" where
  "isdigit c = (48 \<le> (of_char c :: nat) \<and> (of_char c :: nat) \<le> 57)"

text \<open>
  \<open>int(ds)\<close> on a run of ASCII digits. The interpreter's optional limit on the
  number of digits of a conversion is not modelled: the value is the number the
  digits denote, whatever their count.
\<close>

definition int_of_digits :: "string \<Rightarrow> int" where
  "int_of_digits ds = foldl (\<lambda>a c. 10 * a + (int (of_char c) - 48)) 0 ds"

section \<open>Exceptions\<close>

text \<open>
  The handlers of the services tell \<open>json.JSONDecodeError\<close> from every other
  \<open>Exception\<close>; both carry the text that \<open>str(e)\<close> returns.
\<close>

datatype exn = JSONDecodeError string | Exception string

fun str_exn :: "exn \<Rightarrow> string" where
  "str_exn (JSONDecodeError m) = m"
| "str_exn (Exception m) = m"

section \<open>MD5 (\<open>hashlib.md5\<close>, RFC 1321)\<close>

type_synonym byte = "8 word"
type_synonym u32 = "32 word"

definition md5_s :: "nat list" where
  "md5_s = [7, 12, 17, 22, 7, 12, 17, 22, 7, 12, 17, 22, 7, 12, 17, 22,
            5, 9, 14, 20, 5, 9, 14, 20, 5, 9, 14, 20, 5, 9, 14, 20,
            4, 11, 16, 23, 4, 11, 16, 23, 4, 11, 16, 23, 4, 11, 16, 23,
            6, 10, 15, 21, 6, 10, 15, 21, 6, 10, 15, 21, 6, 10, 15, 21]"

definition md5_K :: "u32 list" where
  "md5_K = [
    0xd76aa478, 0xe8c7b756, 0x242070db, 0xc1bdceee,
    0xf57c0faf, 0x4787c62a, 0xa8304613, 0xfd469501,
    0x698098d8, 0x8b44f7af, 0xffff5bb1, 0x895cd7be,
    0x6b901122, 0xfd987193, 0xa679438e, 0x49b40821,
    0xf61e2562, 0xc040b340, 0x265e5a51, 0xe9b6c7aa,
    0xd62f105d, 0x02441453, 0xd8a1e681, 0xe7d3fbc8,
    0x21e1cde6, 0xc33707d6, 0xf4d50d87, 0x455a14ed,
    0xa9e3e905, 0xfcefa3f8, 0x676f02d9, 0x8d2a4c8a,
    0xfffa3942, 0x8771f681, 0x6d9d6122, 0xfde5380c,
    0xa4beea44, 0x4bdecfa9, 0xf6bb4b60, 0xbebfbc70,
    0x289b7ec6, 0xeaa127fa, 0xd4ef3085, 0x04881d05,
    0xd9d4d039, 0xe6db99e5, 0x1fa27cf8, 0xc4ac5665,
    0xf4292244, 0x432aff97, 0xab9423a7, 0xfc93a039,
    0x655b59c3, 0x8f0ccc92, 0xffeff47d, 0x85845dd1,
    0x6fa87e4f, 0xfe2ce6e0, 0xa3014314, 0x4e0811a1,
    0xf7537e82, 0xbd3af235, 0x2ad7d2bb, 0xeb86d391]"

definition md5_F :: "nat \<Rightarrow> u32 \<Rightarrow> u32 \<Rightarrow> u32 \<Rightarrow> u32" where
  "md5_F i b c d =
     (if i < 16 then (b AND c) OR (NOT b AND d)
      else if i < 32 then (d AND b) OR (NOT d AND c)
      else if i < 48 then b XOR c XOR d
      else c XOR (b OR NOT d))"

definition md5_g :: "nat \<Rightarrow> nat" where
  "md5_g i =
     (if i < 16 then i
      else if i < 32 then (5 * i + 1) mod 16
      else if i < 48 then (3 * i + 5) mod 16
      else (7 * i) mod 16)"

type_synonym md5_state = "u32 \<times> u32 \<times> u32 \<times> u32"

definition md5_step :: "u32 list \<Rightarrow> md5_state \<Rightarrow> nat \<Rightarrow> md5_state" where
  "md5_step m st i =
     (case st of (a, b, c, d) \<Rightarrow>
        let f = md5_F i b c d + a + md5_K ! i + m ! md5_g i
        in (d, b + word_rotl (md5_s ! i) f, b, c))"

definition md5_block :: "md5_state \<Rightarrow> u32 list \<Rightarrow> md5_state" where
  "md5_block st m =
     (case st of (a0, b0, c0, d0) \<Rightarrow>
        case foldl (md5_step m) st [0..<64] of (a, b, c, d) \<Rightarrow>
          (a0 + a, b0 + b, c0 + c, d0 + d))"

text \<open>The \<open>n\<close> low bytes of a word, least significant first.\<close>

definition le_bytes :: "nat \<Rightarrow> 'a::len word \<Rightarrow> byte list" where
  "le_bytes n w = map (\<lambda>k. ucast (drop_bit (8 * k) w)) [0..<n]"

definition le_word :: "byte list \<Rightarrow> u32" where
  "le_word bs = foldr (\<lambda>b acc. ucast b + 256 * acc) bs 0"

function chunk :: "nat \<Rightarrow> 'a list \<Rightarrow> 'a list list" where
  "chunk n xs = (if n = 0 \<or> xs = [] then [] else take n xs # chunk n (drop n xs))"
  by pat_completeness auto
termination
  by (relation "measure (\<lambda>(n, xs). length xs)") auto

declare chunk.simps [simp del]

definition md5_pad :: "byte list \<Rightarrow> byte list" where
  "md5_pad bs =
     bs @ [0x80] @ replicate ((119 - length bs mod 64) mod 64) 0 @ le_bytes 8 (of_nat (8 * length bs) :: 64 word)"

definition md5 :: "byte list \<Rightarrow> byte list" where
  "md5 bs =
     (case foldl md5_block (0x67452301, 0xefcdab89, 0x98badcfe, 0x10325476)
             (chunk 16 (map le_word (chunk 4 (md5_pad bs)))) of
        (a, b, c, d) \<Rightarrow> concat (map (\<lambda>w. le_bytes 4 w) [a, b, c, d]))"

definition hex_char :: "nat \<Rightarrow> char" where
  "hex_char d = ''0123456789abcdef'' ! d"

definition hexdigest :: "byte list \<Rightarrow> string" where
  "hexdigest bs = concat (map (\<lambda>b. [hex_char (unat b div 16), hex_char (unat b mod 16)]) bs)"

text \<open>\<open>s.encode()\<close>: UTF-8, one byte below 128 and two bytes from 128 to 255.\<close>

definition encode :: "string \<Rightarrow> byte list" where
  "encode s =
     concat (map (\<lambda>c. let n = (of_char c :: nat)
                      in if n < 128 then [of_nat n]
                         else [of_nat (192 + n div 64), of_nat (128 + n mod 64)]) s)"

section \<open>PDF service (\<open>services/pdf_service.py\<close>)\<close>

text \<open>
  What the PDF library delivers for a file is an input of the model: opening the file
  and building the reader either raises or gives the pages, and \<open>extract_text()\<close>
  of a page either raises or returns the page's text.
\<close>

type_synonym pdf_page = "exn + string"
type_synonym pdf_file = "exn + pdf_page list"

text \<open>
  The loop of \<open>extract_text_from_pdf\<close>: \<open>page_num\<close> is the index that
  \<open>enumerate\<close> gives, \<open>text\<close> the accumulator.
\<close>

fun pages_loop :: "nat \<Rightarrow> pdf_page list \<Rightarrow> string \<Rightarrow> exn + string" where
  "pages_loop page_num [] txt = Inr txt"
| "pages_loop page_num (page # pages) txt =
     (case page of
        Inl e \<Rightarrow> Inl e
      | Inr page_text \<Rightarrow>
          pages_loop (page_num + 1) pages
            (txt @ [newline] @ ''[PAGE '' @ str_nat (page_num + 1) @ '']'' @ [newline]
                 @ page_text @ [newline]))"

definition extract_text_from_pdf :: "pdf_file \<Rightarrow> exn + (string \<times> nat)" where
  "extract_text_from_pdf pdf =
     (case pdf of
        Inl e \<Rightarrow> Inl (Exception (''Error extracting text from PDF: '' @ str_exn e))
      | Inr pages \<Rightarrow>
          (case pages_loop 0 pages [] of
             Inl e \<Rightarrow> Inl (Exception (''Error extracting text from PDF: '' @ str_exn e))
           | Inr txt \<Rightarrow> Inr (strip txt, length pages)))"

definition generate_document_id :: "string \<Rightarrow> string \<Rightarrow> string" where
  "generate_document_id filename content =
     (let hash_input = filename @ ''_'' @ take 1000 content
      in hexdigest (md5 (encode hash_input)))"

text \<open>
  The layout the page markers are specified with: a line reading \<open>[PAGE n]\<close>, the
  page's text, and a blank line before the next marker.
\<close>

definition marked_page :: "nat \<Rightarrow> string \<Rightarrow> string" where
  "marked_page n page_text =
     ''[PAGE '' @ str_nat n @ '']'' @ [newline] @ page_text @ [newline, newline]"

definition marked_pages :: "string list \<Rightarrow> string" where
  "marked_pages page_texts =
     concat (map (\<lambda>(i, page_text). marked_page (i + 1) page_text) (enumerate 0 page_texts))"

text \<open>One pass of the loop of \<open>extract_text_from_pdf\<close>, as the f-string writes it.\<close>

definition raw_page :: "nat \<Rightarrow> string \<Rightarrow> string" where
  "raw_page n page_text =
     [newline] @ ''[PAGE '' @ str_nat n @ '']'' @ [newline] @ page_text @ [newline]"

section \<open>Document store (\<open>utils/db.py\<close>)\<close>

text \<open>
  A stored document is the dictionary that \<open>store_document\<close> builds; its keys
  \<open>id\<close> and \<open>text\<close> are the fields \<open>doc_id\<close> and \<open>doc_text\<close>. The dictionary
  \<open>documents\<close> keeps insertion order and a stored key keeps its place when its value
  is replaced, which is what \<open>AList.update\<close> does. The four counters of \<open>metrics\<close>
  are a record, since the dictionary never gains or loses a key.
\<close>

record document =
  doc_id :: string
  filename :: string
  doc_text :: string
  metadata :: "(string \<times> nat) list"
  uploaded_at :: string
  page_count :: nat

record metric_counters =
  total_ingests :: nat
  total_extractions :: nat
  total_questions :: nat
  total_audits :: nat

record document_store =
  documents :: "(string \<times> document) list"
  metrics :: metric_counters

definition new_store :: document_store where
  "new_store =
     \<lparr>documents = [],
      metrics = \<lparr>total_ingests = 0, total_extractions = 0, total_questions = 0,
                 total_audits = 0\<rparr>\<rparr>"

text \<open>\<open>now\<close> is what \<open>datetime.now().isoformat()\<close> returns at the call.\<close>

definition store_document ::
  "document_store \<Rightarrow> string \<Rightarrow> string \<Rightarrow> string \<Rightarrow> (string \<times> nat) list option \<Rightarrow> string
     \<Rightarrow> document_store" where
  "store_document db did fname txt meta now =
     db\<lparr>documents :=
          AList.update did
            \<lparr>doc_id = did, filename = fname, doc_text = txt,
             metadata = (case meta of None \<Rightarrow> [] | Some m \<Rightarrow> m),
             uploaded_at = now,
             page_count =
               (case meta of
                  None \<Rightarrow> 0
                | Some m \<Rightarrow>
                    if m = [] then 0
                    else (case map_of m ''page_count'' of None \<Rightarrow> 0 | Some n \<Rightarrow> n))\<rparr>
            (documents db),
        metrics := (metrics db)\<lparr>total_ingests := total_ingests (metrics db) + 1\<rparr>\<rparr>"

definition get_document :: "document_store \<Rightarrow> string \<Rightarrow> document option" where
  "get_document db did = map_of (documents db) did"

definition get_all_documents :: "document_store \<Rightarrow> document list" where
  "get_all_documents db = map snd (documents db)"

definition document_exists :: "document_store \<Rightarrow> string \<Rightarrow> bool" where
  "document_exists db did = (map_of (documents db) did \<noteq> None)"

definition get_metrics :: "document_store \<Rightarrow> (string \<times> nat) list" where
  "get_metrics db =
     [(''total_ingests'', total_ingests (metrics db)),
      (''total_extractions'', total_extractions (metrics db)),
      (''total_questions'', total_questions (metrics db)),
      (''total_audits'', total_audits (metrics db)),
      (''total_documents'', length (documents db))]"

definition increment_metric :: "document_store \<Rightarrow> string \<Rightarrow> document_store" where
  "increment_metric db metric_name =
     (let m = metrics db in
      if metric_name = ''total_ingests'' then db\<lparr>metrics := m\<lparr>total_ingests := total_ingests m + 1\<rparr>\<rparr>
      else if metric_name = ''total_extractions''
        then db\<lparr>metrics := m\<lparr>total_extractions := total_extractions m + 1\<rparr>\<rparr>
      else if metric_name = ''total_questions''
        then db\<lparr>metrics := m\<lparr>total_questions := total_questions m + 1\<rparr>\<rparr>
      else if metric_name = ''total_audits'' then db\<lparr>metrics := m\<lparr>total_audits := total_audits m + 1\<rparr>\<rparr>
      else db)"

text \<open>
  Every entry of \<open>documents\<close> is stored under the identifier it carries, and no
  identifier is a key twice.
\<close>

definition well_keyed :: "(string \<times> document) list \<Rightarrow> bool" where
  "well_keyed al = (distinct (map fst al) \<and> list_all (\<lambda>kd. doc_id (snd kd) = fst kd) al)"

section \<open>Response models (\<open>models.py\<close>)\<close>

record Party =
  party_name :: string
  role :: "string option"

record Signatory =
  signatory_name :: string
  title :: "string option"

record LiabilityCap =
  amount :: "real option"
  currency :: "string option"

record ExtractedFields =
  parties :: "Party list"
  effective_date :: "string option"
  term' :: "string option"
  governing_law :: "string option"
  payment_terms :: "string option"
  termination' :: "string option"
  auto_renewal :: "string option"
  confidentiality :: "string option"
  indemnity :: "string option"
  liability_cap :: "LiabilityCap option"
  signatories :: "Signatory list"

record Citation =
  document_id :: string
  page :: "int option"
  char_start :: "int option"
  char_end :: "int option"
  text_snippet :: string

record AskResponse =
  answer :: string
  citations :: "Citation list"
  confidence :: "real option"

record AuditFinding =
  severity :: string
  clause_type :: string
  description :: string
  evidence :: string
  finding_document_id :: string
  finding_page :: "int option"
  recommendation :: "string option"

record IngestResponse =
  ingested_document_ids :: "string list"
  message :: string
  ingested_count :: nat

text \<open>\<open>ExtractedFields()\<close>: every field at the default its class declares.\<close>

definition ExtractedFields_default :: ExtractedFields where
  "ExtractedFields_default =
     \<lparr>parties = [], effective_date = None, term' = None, governing_law = None,
      payment_terms = None, termination' = None, auto_renewal = None,
      confidentiality = None, indemnity = None, liability_cap = None, signatories = []\<rparr>"

section \<open>Decoded JSON and the libraries\<close>

text \<open>The values \<open>json.loads\<close> returns: \<open>None\<close>, \<open>bool\<close>, \<open>int\<close>, \<open>float\<close>,
  \<open>str\<close>, \<open>list\<close> and \<open>dict\<close> (its keys in order).\<close>

datatype json =
  JNull | JBool bool | JInt int | JFloat real | JStr string
  | JArr "json list" | JObj "(string \<times> json) list"

text \<open>
  The standard decoder and the validating constructors of the response models are not
  code of the repository; the services take them as they are. \<open>json_loads\<close> gives the
  decoded value or the exception raised. \<open>new_Party p\<close> is \<open>Party(**p)\<close>, and so for
  \<open>Signatory\<close> and \<open>LiabilityCap\<close>. \<open>new_ExtractedFields\<close> takes the lists built
  before the call and the eight optional texts as keyword and value;
  \<open>new_AuditFinding\<close> takes its keyword arguments in the order of the call.
\<close>

record runtime =
  json_loads :: "string \<Rightarrow> exn + json"
  new_Party :: "json \<Rightarrow> exn + Party"
  new_Signatory :: "json \<Rightarrow> exn + Signatory"
  new_LiabilityCap :: "json \<Rightarrow> exn + LiabilityCap"
  new_ExtractedFields ::
    "Party list \<Rightarrow> (string \<times> json) list \<Rightarrow> LiabilityCap option \<Rightarrow> Signatory list
       \<Rightarrow> exn + ExtractedFields"
  new_AuditFinding :: "(string \<times> json) list \<Rightarrow> exn + AuditFinding"

definition apostrophe :: string where
  "apostrophe = [CHR 0x27]"

fun py_type_name :: "json \<Rightarrow> string" where
  "py_type_name JNull = ''NoneType''"
| "py_type_name (JBool b) = ''bool''"
| "py_type_name (JInt i) = ''int''"
| "py_type_name (JFloat r) = ''float''"
| "py_type_name (JStr s) = ''str''"
| "py_type_name (JArr xs) = ''list''"
| "py_type_name (JObj kvs) = ''dict''"

definition attribute_error :: "string \<Rightarrow> string \<Rightarrow> exn" where
  "attribute_error type_name attr =
     Exception (apostrophe @ type_name @ apostrophe @ '' object has no attribute ''
                @ apostrophe @ attr @ apostrophe)"

definition not_iterable :: "json \<Rightarrow> exn" where
  "not_iterable v =
     Exception (apostrophe @ py_type_name v @ apostrophe @ '' object is not iterable'')"

text \<open>\<open>d.get(key, default)\<close> on a dictionary.\<close>

definition dict_get :: "(string \<times> json) list \<Rightarrow> string \<Rightarrow> json \<Rightarrow> json" where
  "dict_get kvs key dflt = (case map_of kvs key of None \<Rightarrow> dflt | Some v \<Rightarrow> v)"

text \<open>\<open>v.get(key, default)\<close> on any decoded value: only a dictionary has \<open>get\<close>.\<close>

definition py_get :: "json \<Rightarrow> string \<Rightarrow> json \<Rightarrow> exn + json" where
  "py_get v key dflt =
     (case v of
        JObj kvs \<Rightarrow> Inr (dict_get kvs key dflt)
      | _ \<Rightarrow> Inl (attribute_error (py_type_name v) ''get''))"

text \<open>
  \<open>for x in v\<close>: a list gives its elements, a dictionary its keys, a string its
  characters; the other values are not iterable.
\<close>

definition py_iter :: "json \<Rightarrow> exn + json list" where
  "py_iter v =
     (case v of
        JArr xs \<Rightarrow> Inr xs
      | JObj kvs \<Rightarrow> Inr (map (\<lambda>kv. JStr (fst kv)) kvs)
      | JStr s \<Rightarrow> Inr (map (\<lambda>c. JStr [c]) s)
      | _ \<Rightarrow> Inl (not_iterable v))"

fun truthy :: "json \<Rightarrow> bool" where
  "truthy JNull = False"
| "truthy (JBool b) = b"
| "truthy (JInt i) = (i \<noteq> 0)"
| "truthy (JFloat r) = (r \<noteq> 0)"
| "truthy (JStr s) = (s \<noteq> [])"
| "truthy (JArr xs) = (xs \<noteq> [])"
| "truthy (JObj kvs) = (kvs \<noteq> [])"

text \<open>A list comprehension whose element expression may raise: the first exception ends it.\<close>

fun map_exn :: "('a \<Rightarrow> exn + 'b) \<Rightarrow> 'a list \<Rightarrow> exn + 'b list" where
  "map_exn f [] = Inr []"
| "map_exn f (x # xs) =
     (case f x of
        Inl e \<Rightarrow> Inl e
      | Inr y \<Rightarrow> (case map_exn f xs of Inl e \<Rightarrow> Inl e | Inr ys \<Rightarrow> Inr (y # ys)))"

section \<open>The provider\<close>

text \<open>
  A service holds the provider's name and its client. What the provider answers is an
  input of the model: \<open>groq_create prompt temperature max_tokens\<close> is
  \<open>choices[0].message.content\<close> of the completion (which may be \<open>None\<close>) or the
  exception raised, \<open>gemini_generate_content prompt\<close> is \<open>response.text\<close> or the
  exception. A stream is the chunks delivered and the exception that ends the
  iteration, if one does.
\<close>

record ai_service =
  provider :: string
  groq_create :: "string \<Rightarrow> real \<Rightarrow> nat \<Rightarrow> exn + string option"
  gemini_generate_content :: "string \<Rightarrow> exn + string"
  groq_create_stream :: "string \<Rightarrow> real \<Rightarrow> nat \<Rightarrow> string option list \<times> exn option"
  gemini_generate_stream :: "string \<Rightarrow> string list \<times> exn option"

text \<open>
  The provider branch that the three services repeat: the reply, stripped.
  \<open>.strip()\<close> on a missing content raises.
\<close>

definition generate :: "ai_service \<Rightarrow> string \<Rightarrow> real \<Rightarrow> nat \<Rightarrow> exn + string" where
  "generate svc prompt temperature max_tokens =
     (if provider svc = ''groq'' then
        (case groq_create svc prompt temperature max_tokens of
           Inl e \<Rightarrow> Inl e
         | Inr None \<Rightarrow> Inl (attribute_error ''NoneType'' ''strip'')
         | Inr (Some content) \<Rightarrow> Inr (strip content))
      else
        (case gemini_generate_content svc prompt of
           Inl e \<Rightarrow> Inl e
         | Inr txt \<Rightarrow> Inr (strip txt)))"

text \<open>The fenced-code-block wrapper is removed before the reply is decoded.\<close>

definition strip_fence :: "string \<Rightarrow> string" where
  "strip_fence response_text =
     (if startswith response_text ''```json''
        then strip (replace (replace response_text ''```json'' []) ''```'' [])
      else if startswith response_text ''```'' then strip (replace response_text ''```'' [])
      else response_text)"

section \<open>Field extraction service (\<open>services/extraction_service.py\<close>)\<close>

definition extraction_prompt :: "string \<Rightarrow> string" where
  \<open>extraction_prompt document_text =
     ''\<newline>'' @
     ''You are a contract analysis expert. Extract the following information from the contract below.\<newline>'' @
     ''Return ONLY a valid JSON object with these exact fields:\<newline>'' @
     ''\<newline>'' @
     ''{\<newline>'' @
     ''  "parties": [\<newline>'' @
     ''    {"name": "Party Name", "role": "Buyer/Seller/etc"}\<newline>'' @
     ''  ],\<newline>'' @
     ''  "effective_date": "date or null",\<newline>'' @
     ''  "term": "contract duration or null",\<newline>'' @
     ''  "governing_law": "jurisdiction or null",\<newline>'' @
     ''  "payment_terms": "summary or null",\<newline>'' @
     ''  "termination": "termination conditions or null",\<newline>'' @
     ''  "auto_renewal": "auto-renewal terms or null",\<newline>'' @
     ''  "confidentiality": "confidentiality terms or null",\<newline>'' @
     ''  "indemnity": "indemnity terms or null",\<newline>'' @
     ''  "liability_cap": {"amount": number, "currency": "USD/EUR/etc"},\<newline>'' @
     ''  "signatories": [\<newline>'' @
     ''    {"name": "Signatory Name", "title": "Title"}\<newline>'' @
     ''  ]\<newline>'' @
     ''}\<newline>'' @
     ''\<newline>'' @
     ''If any field is not found, use null or empty array [].\<newline>'' @
     ''\<newline>'' @
     ''CONTRACT TEXT:\<newline>'' @
     take 8000 document_text @
     ''\<newline>'' @
     ''\<newline>'' @
     ''JSON OUTPUT:\<newline>''\<close>

text \<open>
  The arguments of \<open>ExtractedFields(...)\<close>, evaluated in the order they are written:
  the parties, the eight texts, the liability cap (built only when the entry is
  truthy), the signatories; then the constructor.
\<close>

definition reshape_fields :: "runtime \<Rightarrow> json \<Rightarrow> exn + ExtractedFields" where
  "reshape_fields rt extracted_data =
     (case extracted_data of
        JObj kvs \<Rightarrow>
          (case py_iter (dict_get kvs ''parties'' (JArr [])) of
             Inl e \<Rightarrow> Inl e
           | Inr ps \<Rightarrow>
          (case map_exn (new_Party rt) ps of
             Inl e \<Rightarrow> Inl e
           | Inr the_parties \<Rightarrow>
          (case (if truthy (dict_get kvs ''liability_cap'' JNull)
                 then (case new_LiabilityCap rt (dict_get kvs ''liability_cap'' JNull) of
                         Inl e \<Rightarrow> Inl e
                       | Inr c \<Rightarrow> Inr (Some c))
                 else Inr None) of
             Inl e \<Rightarrow> Inl e
           | Inr cap \<Rightarrow>
          (case py_iter (dict_get kvs ''signatories'' (JArr [])) of
             Inl e \<Rightarrow> Inl e
           | Inr ss \<Rightarrow>
          (case map_exn (new_Signatory rt) ss of
             Inl e \<Rightarrow> Inl e
           | Inr the_signatories \<Rightarrow>
               new_ExtractedFields rt the_parties
                 [(''effective_date'', dict_get kvs ''effective_date'' JNull),
                  (''term'', dict_get kvs ''term'' JNull),
                  (''governing_law'', dict_get kvs ''governing_law'' JNull),
                  (''payment_terms'', dict_get kvs ''payment_terms'' JNull),
                  (''termination'', dict_get kvs ''termination'' JNull),
                  (''auto_renewal'', dict_get kvs ''auto_renewal'' JNull),
                  (''confidentiality'', dict_get kvs ''confidentiality'' JNull),
                  (''indemnity'', dict_get kvs ''indemnity'' JNull)]
                 cap the_signatories)))))
      | _ \<Rightarrow> Inl (attribute_error (py_type_name extracted_data) ''get''))"

text \<open>
  The inner \<open>case\<close> is the body of the \<open>try\<close>, the outer one its two handlers: a
  \<open>JSONDecodeError\<close> gives the default fields, any other exception is raised again
  with its text.
\<close>

definition extract_fields :: "ai_service \<Rightarrow> runtime \<Rightarrow> string \<Rightarrow> exn + ExtractedFields" where
  "extract_fields svc rt document_text =
     (case (case generate svc (extraction_prompt document_text) 0.1 2000 of
              Inl e \<Rightarrow> Inl e
            | Inr response_text \<Rightarrow>
                (case json_loads rt (strip_fence response_text) of
                   Inl e \<Rightarrow> Inl e
                 | Inr extracted_data \<Rightarrow> reshape_fields rt extracted_data)) of
        Inr extracted \<Rightarrow> Inr extracted
      | Inl (JSONDecodeError m) \<Rightarrow> Inr ExtractedFields_default
      | Inl (Exception m) \<Rightarrow> Inl (Exception (''Extraction error: '' @ m)))"

section \<open>Audit service (\<open>services/audit_service.py\<close>)\<close>

definition audit_prompt :: "string \<Rightarrow> string" where
  \<open>audit_prompt doc_txt =
     ''\<newline>'' @
     ''You are a legal contract auditor. Analyze this contract for risky clauses.\<newline>'' @
     ''\<newline>'' @
     ''RISK CATEGORIES TO CHECK:\<newline>'' @
     ''1. Auto-renewal with less than 30 days notice\<newline>'' @
     ''2. Unlimited liability or no liability cap\<newline>'' @
     ''3. Broad indemnity clauses\<newline>'' @
     ''4. One-sided termination rights\<newline>'' @
     ''5. Unfavorable payment terms\<newline>'' @
     ''6. Lack of confidentiality protections\<newline>'' @
     ''7. Unclear dispute resolution\<newline>'' @
     ''\<newline>'' @
     ''For each risk found, return a JSON array with this structure:\<newline>'' @
     ''[\<newline>'' @
     ''  {\<newline>'' @
     ''    "severity": "high|medium|low",\<newline>'' @
     ''    "clause_type": "auto_renewal|liability|indemnity|termination|payment|confidentiality|other",\<newline>'' @
     ''    "description": "Brief description of the risk",\<newline>'' @
     ''    "evidence": "Exact quote from contract (keep it short)",\<newline>'' @
     ''    "recommendation": "How to mitigate this risk"\<newline>'' @
     ''  }\<newline>'' @
     '']\<newline>'' @
     ''\<newline>'' @
     ''CONTRACT TEXT:\<newline>'' @
     take 8000 doc_txt @
     ''\<newline>'' @
     ''\<newline>'' @
     ''Return ONLY the JSON array, no other text.\<newline>'' @
     ''\<newline>'' @
     ''JSON OUTPUT:\<newline>''\<close>

text \<open>One pass of the loop over \<open>findings_data\<close>: the five \<open>get\<close> calls, then the
  constructor.\<close>

definition make_finding :: "runtime \<Rightarrow> string \<Rightarrow> json \<Rightarrow> exn + AuditFinding" where
  "make_finding rt did finding =
     (case finding of
        JObj kvs \<Rightarrow>
          new_AuditFinding rt
            [(''severity'', dict_get kvs ''severity'' (JStr ''low'')),
             (''clause_type'', dict_get kvs ''clause_type'' (JStr ''other'')),
             (''description'', dict_get kvs ''description'' (JStr [])),
             (''evidence'', dict_get kvs ''evidence'' (JStr [])),
             (''document_id'', JStr did),
             (''recommendation'', dict_get kvs ''recommendation'' JNull)]
      | _ \<Rightarrow> Inl (attribute_error (py_type_name finding) ''get''))"

fun findings_loop ::
  "runtime \<Rightarrow> string \<Rightarrow> json list \<Rightarrow> AuditFinding list \<Rightarrow> exn + AuditFinding list" where
  "findings_loop rt did [] findings = Inr findings"
| "findings_loop rt did (finding # rest) findings =
     (case make_finding rt did finding of
        Inl e \<Rightarrow> Inl e
      | Inr f \<Rightarrow> findings_loop rt did rest (findings @ [f]))"

definition audit_document :: "ai_service \<Rightarrow> runtime \<Rightarrow> document_store \<Rightarrow> string \<Rightarrow> AuditFinding list" where
  "audit_document svc rt db did =
     (case get_document db did of
        None \<Rightarrow> []
      | Some doc \<Rightarrow>
          (case (case generate svc (audit_prompt (doc_text doc)) 0.1 2000 of
                   Inl e \<Rightarrow> Inl e
                 | Inr response_text \<Rightarrow>
                     (case json_loads rt (strip_fence response_text) of
                        Inl e \<Rightarrow> Inl e
                      | Inr findings_data \<Rightarrow>
                          (case py_iter findings_data of
                             Inl e \<Rightarrow> Inl e
                           | Inr items \<Rightarrow> findings_loop rt did items []))) of
             Inr findings \<Rightarrow> findings
           | Inl (JSONDecodeError m) \<Rightarrow>
               [\<lparr>severity = ''low'', clause_type = ''other'',
                 description = ''Unable to complete full audit analysis'',
                 evidence = ''Analysis incomplete'', finding_document_id = did,
                 finding_page = None, recommendation = Some ''Manual review recommended''\<rparr>]
           | Inl (Exception m) \<Rightarrow>
               [\<lparr>severity = ''low'', clause_type = ''other'',
                 description = ''Audit error: '' @ m, evidence = [],
                 finding_document_id = did, finding_page = None, recommendation = None\<rparr>]))"

fun batch_audit ::
  "ai_service \<Rightarrow> runtime \<Rightarrow> document_store \<Rightarrow> string list \<Rightarrow> (string \<times> AuditFinding list) list
     \<Rightarrow> (string \<times> AuditFinding list) list" where
  "batch_audit svc rt db [] results = results"
| "batch_audit svc rt db (did # dids) results =
     (if document_exists db did
      then batch_audit svc rt db dids (AList.update did (audit_document svc rt db did) results)
      else batch_audit svc rt db dids results)"

section \<open>Question answering service (\<open>services/rag_service.py\<close>)\<close>

text \<open>
  The documents a question is answered from. \<open>if document_ids:\<close> is false for
  \<open>None\<close> and for the empty list.
\<close>

definition select_documents :: "document_store \<Rightarrow> string list option \<Rightarrow> document list" where
  "select_documents db document_ids =
     (case document_ids of
        None \<Rightarrow> get_all_documents db
      | Some ids \<Rightarrow>
          if ids \<noteq> []
          then List.map_filter
                 (\<lambda>did. if document_exists db did then get_document db did else None) ids
          else get_all_documents db)"

fun build_context :: "document list \<Rightarrow> string \<Rightarrow> string" where
  "build_context [] context = context"
| "build_context (doc # docs) context =
     build_context docs
       (context @ [newline, newline] @ ''[DOCUMENT: '' @ doc_id doc @ '']'' @ [newline]
                @ take 5000 (doc_text doc) @ [newline])"

definition ask_prompt :: "string \<Rightarrow> string \<Rightarrow> string" where
  \<open>ask_prompt question context =
     ''\<newline>'' @
     ''Answer the following question based ONLY on the provided contract documents.\<newline>'' @
     ''Include specific references to document sections when possible.\<newline>'' @
     ''\<newline>'' @
     ''QUESTION: '' @
     question @
     ''\<newline>'' @
     ''\<newline>'' @
     ''DOCUMENTS:\<newline>'' @
     context @
     ''\<newline>'' @
     ''\<newline>'' @
     ''Provide a clear, accurate answer with citations. If the answer is not in the documents, say so.\<newline>'' @
     ''\<newline>'' @
     ''ANSWER:\<newline>''\<close>

definition stream_prompt :: "string \<Rightarrow> string \<Rightarrow> string" where
  \<open>stream_prompt question context =
     ''\<newline>'' @
     ''Answer the following question based ONLY on the provided contract documents.\<newline>'' @
     ''\<newline>'' @
     ''QUESTION: '' @
     question @
     ''\<newline>'' @
     ''\<newline>'' @
     ''DOCUMENTS:\<newline>'' @
     context @
     ''\<newline>'' @
     ''\<newline>'' @
     ''ANSWER:\<newline>''\<close>

text \<open>
  The pattern \<open>\[PAGE (\d+)\]\<close> tried at the start of a string: the digits captured
  and what follows the match. \<open>\d+\<close> takes every digit there is; giving some back
  cannot help, since a digit is not the closing bracket.
\<close>

definition match_page :: "string \<Rightarrow> (string \<times> string) option" where
  "match_page s =
     (if startswith s ''[PAGE '' then
        (let ds = takeWhile isdigit (drop 6 s); rest = dropWhile isdigit (drop 6 s)
         in if ds \<noteq> [] \<and> startswith rest '']'' then Some (ds, drop 1 rest) else None)
      else None)"

text \<open>\<open>re.findall\<close> of the pattern: the matches from the left, without overlap.\<close>

function findall_pages :: "string \<Rightarrow> string list" where
  "findall_pages s =
     (if s = [] then []
      else (case match_page s of
              Some (ds, rest) \<Rightarrow> ds # findall_pages rest
            | None \<Rightarrow> findall_pages (tl s)))"
  by pat_completeness auto
termination
proof (relation "measure length")
  show "wf (measure length)" by simp
next
  fix s :: string and x2 :: "string \<times> string" and ds rest :: string
  assume "s \<noteq> []" and m: "match_page s = Some x2" and x: "(ds, rest) = x2"
  have r: "rest = drop 1 (dropWhile isdigit (drop 6 s))"
    using m x by (auto simp: match_page_def Let_def split: if_splits)
  have a: "length rest \<le> length (dropWhile isdigit (drop 6 s))"
    unfolding r by simp
  have b: "length (dropWhile isdigit (drop 6 s)) \<le> length s - 6"
    using length_dropWhile_le [of isdigit "drop 6 s"] by simp
  have c: "0 < length s"
    using \<open>s \<noteq> []\<close> by simp
  from a b c have "length rest < length s"
    by arith
  then show "(rest, s) \<in> measure length"
    by simp
next
  fix s :: string
  assume "s \<noteq> []" and "match_page s = None"
  then show "(tl s, s) \<in> measure length"
    by (cases s) simp_all
qed

text \<open>\<open>int(pages[0]) if pages else None\<close>.\<close>

definition first_page :: "string \<Rightarrow> int option" where
  "first_page txt = (case findall_pages txt of [] \<Rightarrow> None | p # ps \<Rightarrow> Some (int_of_digits p))"

fun citations_loop :: "string \<Rightarrow> document list \<Rightarrow> Citation list \<Rightarrow> Citation list" where
  "citations_loop answer_text [] cits = cits"
| "citations_loop answer_text (doc # docs) cits =
     (if str_contains answer_text (doc_id doc) \<or> str_contains answer_text (filename doc)
      then citations_loop answer_text docs
             (cits @ [\<lparr>document_id = doc_id doc, page = first_page (doc_text doc),
                       char_start = None, char_end = None,
                       text_snippet = take 200 (doc_text doc)\<rparr>])
      else citations_loop answer_text docs cits)"

definition extract_citations :: "string \<Rightarrow> document list \<Rightarrow> Citation list" where
  "extract_citations answer_text docs = citations_loop answer_text docs []"


definition no_documents_message :: string where
  "no_documents_message = ''No documents found. Please upload documents first.''"

definition answer_question ::
  "ai_service \<Rightarrow> document_store \<Rightarrow> string \<Rightarrow> string list option \<Rightarrow> AskResponse" where
  "answer_question svc db question document_ids =
     (let docs = select_documents db document_ids in
      if docs = [] then \<lparr>answer = no_documents_message, citations = [], confidence = None\<rparr>
      else
        (case generate svc (ask_prompt question (build_context docs [])) 0.3 1000 of
           Inr answer_text \<Rightarrow>
             \<lparr>answer = answer_text, citations = extract_citations answer_text docs,
              confidence = Some 0.85\<rparr>
         | Inl e \<Rightarrow>
             \<lparr>answer = ''Error processing question: '' @ str_exn e, citations = [],
              confidence = None\<rparr>))"

text \<open>
  The fragments the generator yields, in order. A chunk with no content, or an empty
  one, is passed over; an exception ends the stream with one fragment of its text.
\<close>

definition stream_fragments :: "ai_service \<Rightarrow> string \<Rightarrow> string list" where
  "stream_fragments svc prompt =
     (if provider svc = ''groq'' then
        (case groq_create_stream svc prompt 0.3 1000 of
           (chunks, failure) \<Rightarrow>
             List.map_filter (\<lambda>c. case c of None \<Rightarrow> None | Some t \<Rightarrow> if t \<noteq> [] then Some t else None)
               chunks
             @ (case failure of None \<Rightarrow> [] | Some e \<Rightarrow> [''Error: '' @ str_exn e]))
      else
        (case gemini_generate_stream svc prompt of
           (chunks, failure) \<Rightarrow>
             filter (\<lambda>t. t \<noteq> []) chunks
             @ (case failure of None \<Rightarrow> [] | Some e \<Rightarrow> [''Error: '' @ str_exn e])))"

definition answer_question_stream ::
  "ai_service \<Rightarrow> document_store \<Rightarrow> string \<Rightarrow> string list option \<Rightarrow> string list" where
  "answer_question_stream svc db question document_ids =
     (let docs = select_documents db document_ids in
      if docs = [] then [no_documents_message]
      else stream_fragments svc (stream_prompt question (build_context docs [])))"

section \<open>HTTP surface (\<open>main.py\<close>)\<close>

text \<open>
  A handler returns the response or the \<open>HTTPException\<close> it raises (status code and
  detail), together with the store as it leaves it. The handlers of \<open>/extract\<close>,
  \<open>/ask\<close>, \<open>/ask/stream\<close> and \<open>/audit\<close> carry the names of their routes, since the
  services own the names \<open>extract_fields\<close> and \<open>audit_document\<close>.
\<close>

datatype http_error = HTTPException nat string

text \<open>
  An uploaded file: its name, the exception that reading it or saving it to the staging
  directory raises (if any), what the PDF library delivers for the saved file, and the
  clock reading when it is stored.
\<close>

record upload_file =
  upload_filename :: string
  read_save_failure :: "exn option"
  pdf :: pdf_file
  stored_at :: string

text \<open>The steps of the \<open>try\<close> block up to the extracted text.\<close>

definition process_upload :: "upload_file \<Rightarrow> exn + (string \<times> nat)" where
  "process_upload file =
     (case read_save_failure file of
        Some e \<Rightarrow> Inl e
      | None \<Rightarrow> extract_text_from_pdf (pdf file))"

fun ingest_loop ::
  "document_store \<Rightarrow> upload_file list \<Rightarrow> string list \<Rightarrow> nat \<Rightarrow> string list
     \<Rightarrow> document_store \<times> string list \<times> nat \<times> string list" where
  "ingest_loop db [] document_ids processed_count errors =
     (db, document_ids, processed_count, errors)"
| "ingest_loop db (file # files) document_ids processed_count errors =
     (if \<not> endswith (upload_filename file) ''.pdf''
      then ingest_loop db files document_ids processed_count
             (errors @ [''Skipped '' @ upload_filename file @ '' - not a PDF''])
      else
        (case process_upload file of
           Inl e \<Rightarrow>
             ingest_loop db files document_ids processed_count
               (errors @ [''Error processing '' @ upload_filename file @ '': '' @ str_exn e])
         | Inr (txt, n_pages) \<Rightarrow>
             ingest_loop
               (store_document db (generate_document_id (upload_filename file) txt)
                  (upload_filename file) txt (Some [(''page_count'', n_pages)]) (stored_at file))
               files
               (document_ids @ [generate_document_id (upload_filename file) txt])
               (processed_count + 1) errors))"

definition ingest_documents ::
  "document_store \<Rightarrow> upload_file list \<Rightarrow> (http_error + IngestResponse) \<times> document_store" where
  "ingest_documents db files =
     (if files = [] then (Inl (HTTPException 400 ''No files provided''), db)
      else
        (case ingest_loop db files [] 0 [] of
           (db', document_ids, processed_count, errors) \<Rightarrow>
             if processed_count = 0
             then (Inl (HTTPException 400
                          (''No valid PDF files processed''
                           @ (if errors \<noteq> [] then ''. Errors: '' @ join ''; '' errors else []))),
                   db')
             else (Inr \<lparr>ingested_document_ids = document_ids,
                        message = ''Successfully ingested '' @ str_nat processed_count
                                  @ '' document(s)'',
                        ingested_count = processed_count\<rparr>,
                   db')))"

definition post_extract ::
  "ai_service \<Rightarrow> runtime \<Rightarrow> document_store \<Rightarrow> string
     \<Rightarrow> (http_error + ExtractedFields) \<times> document_store" where
  "post_extract svc rt db did =
     (case get_document db did of
        None \<Rightarrow> (Inl (HTTPException 404 ''Document not found''), db)
      | Some doc \<Rightarrow>
          (case extract_fields svc rt (doc_text doc) of
             Inr extracted \<Rightarrow> (Inr extracted, increment_metric db ''total_extractions'')
           | Inl e \<Rightarrow>
               (Inl (HTTPException 500 (''Extraction failed: '' @ str_exn e)),
                increment_metric db ''total_extractions'')))"

definition post_ask ::
  "ai_service \<Rightarrow> document_store \<Rightarrow> string \<Rightarrow> string list option
     \<Rightarrow> (http_error + AskResponse) \<times> document_store" where
  "post_ask svc db question document_ids =
     (if question = [] then (Inl (HTTPException 400 ''Question is required''), db)
      else
        (Inr (answer_question svc (increment_metric db ''total_questions'') question document_ids),
         increment_metric db ''total_questions''))"

text \<open>\<open>s.split(',')\<close>.\<close>

fun split_on :: "char \<Rightarrow> string \<Rightarrow> string list" where
  "split_on sep [] = [[]]"
| "split_on sep (c # cs) =
     (if c = sep then [] # split_on sep cs
      else (case split_on sep cs of [] \<Rightarrow> [[c]] | w # ws \<Rightarrow> (c # w) # ws))"

text \<open>The events of \<open>event_generator\<close>: one per fragment, then the sentinel.\<close>

definition event_generator :: "string list \<Rightarrow> string list" where
  "event_generator fragments =
     map (\<lambda>chunk. ''data: '' @ chunk @ [newline, newline]) fragments
     @ [''data: [DONE]'' @ [newline, newline]]"

definition get_ask_stream ::
  "ai_service \<Rightarrow> document_store \<Rightarrow> string \<Rightarrow> string option \<Rightarrow> http_error + string list" where
  "get_ask_stream svc db question document_ids =
     (if question = [] then Inl (HTTPException 400 ''Question is required'')
      else
        Inr (event_generator
               (answer_question_stream svc db question
                  (case document_ids of
                     None \<Rightarrow> None
                   | Some ids \<Rightarrow> if ids \<noteq> [] then Some (split_on (CHR '','') ids) else None))))"


section \<open>Notions of the specification\<close>




text \<open>A file of a batch is processed: it is named as a PDF and its text is extracted.\<close>

definition upload_ok :: "upload_file \<Rightarrow> bool" where
  "upload_ok file =
     (endswith (upload_filename file) ''.pdf''
      \<and> (case process_upload file of Inl e \<Rightarrow> False | Inr r \<Rightarrow> True))"

text \<open>The message collected for a file that is not processed.\<close>

definition upload_error :: "upload_file \<Rightarrow> string" where
  "upload_error file =
     (if \<not> endswith (upload_filename file) ''.pdf''
      then ''Skipped '' @ upload_filename file @ '' - not a PDF''
      else ''Error processing '' @ upload_filename file @ '': ''
           @ (case process_upload file of Inl e \<Rightarrow> str_exn e | Inr r \<Rightarrow> []))"

text \<open>The identifier a processed file is stored under.\<close>

definition upload_id :: "upload_file \<Rightarrow> string" where
  "upload_id file =
     (case process_upload file of
        Inl e \<Rightarrow> []
      | Inr r \<Rightarrow> generate_document_id (upload_filename file) (fst r))"

text \<open>
  A text is attached to an ingestion response when one of the response's three fields
  carries it: it is one of the identifiers or it occurs in the message.
\<close>

definition attached :: "IngestResponse \<Rightarrow> string \<Rightarrow> bool" where
  "attached resp m = (m \<in> set (ingested_document_ids resp) \<or> str_contains (message resp) m)"

section \<open>An environment for the examples\<close>

text \<open>
  The examples need the libraries at a few concrete arguments. \<open>sample_loads\<close> stands
  for \<open>json.loads\<close> on the replies the examples use: it decodes \<open>[]\<close> and \<open>{}\<close> as
  the standard decoder does and rejects a reply that is no JSON text, as the standard
  decoder does; it is not meant for any other text. The sample constructors accept a
  string where the model declares \<open>str\<close>, a number where it declares \<open>float\<close>, and
  \<open>None\<close> where the field is optional.
\<close>

definition sample_loads :: "string \<Rightarrow> exn + json" where
  "sample_loads s =
     (if s = ''[]'' then Inr (JArr [])
      else if s = ''{}'' then Inr (JObj [])
      else Inl (JSONDecodeError ''Expecting value: line 1 column 1 (char 0)''))"

fun sample_str :: "json \<Rightarrow> exn + string" where
  "sample_str (JStr s) = Inr s"
| "sample_str v = Inl (Exception ''Input should be a valid string'')"

fun sample_opt_str :: "json \<Rightarrow> exn + string option" where
  "sample_opt_str JNull = Inr None"
| "sample_opt_str (JStr s) = Inr (Some s)"
| "sample_opt_str v = Inl (Exception ''Input should be a valid string'')"

fun sample_opt_float :: "json \<Rightarrow> exn + real option" where
  "sample_opt_float JNull = Inr None"
| "sample_opt_float (JInt i) = Inr (Some (of_int i))"
| "sample_opt_float (JFloat r) = Inr (Some r)"
| "sample_opt_float v = Inl (Exception ''Input should be a valid number'')"

definition sample_named ::
  "string \<Rightarrow> json \<Rightarrow> (string \<Rightarrow> string option \<Rightarrow> 'a) \<Rightarrow> exn + 'a" where
  "sample_named second v build =
     (case v of
        JObj kvs \<Rightarrow>
          (case map_of kvs ''name'' of
             None \<Rightarrow> Inl (Exception ''Field required'')
           | Some n \<Rightarrow>
               (case sample_str n of
                  Inl e \<Rightarrow> Inl e
                | Inr nm \<Rightarrow>
                    (case sample_opt_str (dict_get kvs second JNull) of
                       Inl e \<Rightarrow> Inl e
                     | Inr r \<Rightarrow> Inr (build nm r))))
      | _ \<Rightarrow> Inl (Exception ''argument after ** must be a mapping''))"

definition sample_LiabilityCap :: "json \<Rightarrow> exn + LiabilityCap" where
  "sample_LiabilityCap v =
     (case v of
        JObj kvs \<Rightarrow>
          (case sample_opt_float (dict_get kvs ''amount'' JNull) of
             Inl e \<Rightarrow> Inl e
           | Inr a \<Rightarrow>
               (case sample_opt_str (dict_get kvs ''currency'' JNull) of
                  Inl e \<Rightarrow> Inl e
                | Inr c \<Rightarrow> Inr \<lparr>amount = a, currency = c\<rparr>))
      | _ \<Rightarrow> Inl (Exception ''argument after ** must be a mapping''))"

definition sample_ExtractedFields ::
  "Party list \<Rightarrow> (string \<times> json) list \<Rightarrow> LiabilityCap option \<Rightarrow> Signatory list
     \<Rightarrow> exn + ExtractedFields" where
  "sample_ExtractedFields ps kws cap ss =
     (case map_exn (\<lambda>kw. sample_opt_str (snd kw)) kws of
        Inr [a, b, c, d, e, f, g, h] \<Rightarrow>
          Inr \<lparr>parties = ps, effective_date = a, term' = b, governing_law = c,
               payment_terms = d, termination' = e, auto_renewal = f, confidentiality = g,
               indemnity = h, liability_cap = cap, signatories = ss\<rparr>
      | Inr other \<Rightarrow> Inl (Exception ''unexpected keyword arguments'')
      | Inl e \<Rightarrow> Inl e)"

definition sample_AuditFinding :: "(string \<times> json) list \<Rightarrow> exn + AuditFinding" where
  "sample_AuditFinding kws =
     (case map_exn (\<lambda>kw. sample_str (snd kw)) (take 5 kws) of
        Inr [a, b, c, d, e] \<Rightarrow>
          (case sample_opt_str (dict_get kws ''recommendation'' JNull) of
             Inl x \<Rightarrow> Inl x
           | Inr r \<Rightarrow>
               Inr \<lparr>severity = a, clause_type = b, description = c, evidence = d,
                    finding_document_id = e, finding_page = None, recommendation = r\<rparr>)
      | Inr other \<Rightarrow> Inl (Exception ''unexpected keyword arguments'')
      | Inl x \<Rightarrow> Inl x)"

definition sample_runtime :: runtime where
  "sample_runtime =
     \<lparr>json_loads = sample_loads,
      new_Party = (\<lambda>v. sample_named ''role'' v (\<lambda>n r. \<lparr>party_name = n, role = r\<rparr>)),
      new_Signatory = (\<lambda>v. sample_named ''title'' v (\<lambda>n t. \<lparr>signatory_name = n, title = t\<rparr>)),
      new_LiabilityCap = sample_LiabilityCap,
      new_ExtractedFields = sample_ExtractedFields,
      new_AuditFinding = sample_AuditFinding\<rparr>"

text \<open>A provider that answers every prompt with the same reply, and streams it whole.\<close>

definition gemini_replying :: "string \<Rightarrow> ai_service" where
  "gemini_replying reply =
     \<lparr>provider = ''gemini'',
      groq_create = (\<lambda>prompt temperature max_tokens. Inl (Exception ''no groq client'')),
      gemini_generate_content = (\<lambda>prompt. Inr reply),
      groq_create_stream = (\<lambda>prompt temperature max_tokens. ([], Some (Exception ''no groq client''))),
      gemini_generate_stream = (\<lambda>prompt. ([reply], None))\<rparr>"

text \<open>A store holding one two-page contract.\<close>

definition lease_text :: string where
  "lease_text = ''[PAGE 3]'' @ [newline] @ ''Lease of the barn.'' @ [newline, newline]
                @ ''[PAGE 4]'' @ [newline] @ ''Rent is due monthly.''"

definition lease_store :: document_store where
  "lease_store = store_document new_store ''doc-1'' ''lease.pdf'' lease_text
                   (Some [(''page_count'', 2)]) ''2024-01-01T00:00:00''"

definition lease_document :: document where
  "lease_document =
     \<lparr>doc_id = ''doc-1'', filename = ''lease.pdf'', doc_text = lease_text,
      metadata = [(''page_count'', 2)], uploaded_at = ''2024-01-01T00:00:00'',
      page_count = 2\<rparr>"

text \<open>A batch of two uploads: a one-page lease and a text file.\<close>

definition lease_upload :: upload_file where
  "lease_upload =
     \<lparr>upload_filename = ''lease.pdf'', read_save_failure = None,
      pdf = Inr [Inr ''Lease of the barn.''], stored_at = ''2024-01-01T00:00:00''\<rparr>"

definition notes_upload :: upload_file where
  "notes_upload =
     \<lparr>upload_filename = ''notes.txt'', read_save_failure = None,
      pdf = Inl (Exception ''EOF marker not found''), stored_at = ''2024-01-01T00:00:01''\<rparr>"

section \<open>PDF extraction: the layout of the text\<close>

lemma isspace_newline: "isspace newline"
  by (simp add: isspace_def newline_def)

lemma not_isspace_bracket: "\<not> isspace (CHR ''['')"
  by (simp add: isspace_def)

lemma rstrip_snoc_space: "isspace c \<Longrightarrow> rstrip (s @ [c]) = rstrip s"
  by (simp add: rstrip_def)

lemma lstrip_Cons_space: "isspace c \<Longrightarrow> lstrip (c # s) = lstrip s"
  by (simp add: lstrip_def)

lemma lstrip_Cons_nonspace: "\<not> isspace c \<Longrightarrow> lstrip (c # s) = c # s"
  by (simp add: lstrip_def)

lemma pages_loop_all_ok:
  "pages_loop n (map Inr ts) acc =
     Inr (acc @ concat (map (\<lambda>(i, t). raw_page (i + 1) t) (enumerate n ts)))"
  by (induction ts arbitrary: n acc) (simp_all add: raw_page_def)

lemma raw_marked_shift:
  "concat (map (\<lambda>(i, t). raw_page (i + 1) t) (enumerate n ts)) @ [newline] =
     newline # concat (map (\<lambda>(i, t). marked_page (i + 1) t) (enumerate n ts))"
proof (induction ts arbitrary: n)
  case Nil
  show ?case by simp
next
  case (Cons t ts)
  have "concat (map (\<lambda>(i, t). raw_page (i + 1) t) (enumerate n (t # ts))) @ [newline] =
        raw_page (n + 1) t
        @ (concat (map (\<lambda>(i, t). raw_page (i + 1) t) (enumerate (Suc n) ts)) @ [newline])"
    by simp
  also have "\<dots> =
        raw_page (n + 1) t
        @ newline # concat (map (\<lambda>(i, t). marked_page (i + 1) t) (enumerate (Suc n) ts))"
    by (simp only: Cons.IH)
  also have "\<dots> =
        newline # marked_page (n + 1) t
        @ concat (map (\<lambda>(i, t). marked_page (i + 1) t) (enumerate (Suc n) ts))"
    by (simp add: raw_page_def marked_page_def)
  finally show ?case by simp
qed

lemma strip_raw_pages:
  "strip (concat (map (\<lambda>(i, t). raw_page (i + 1) t) (enumerate n ts))) =
   rstrip (concat (map (\<lambda>(i, t). marked_page (i + 1) t) (enumerate n ts)))"
proof (cases ts)
  case Nil
  then show ?thesis by (simp add: strip_def lstrip_def)
next
  case (Cons t ts')
  define R where "R = concat (map (\<lambda>(i, t). raw_page (i + 1) t) (enumerate n ts))"
  define M where "M = concat (map (\<lambda>(i, t). marked_page (i + 1) t) (enumerate n ts))"
  obtain R' where R: "R = newline # CHR ''['' # R'"
    using Cons by (simp add: R_def raw_page_def)
  have "R @ [newline] = newline # M"
    unfolding R_def M_def by (rule raw_marked_shift)
  then have M: "M = CHR ''['' # R' @ [newline]"
    using R by simp
  have "strip R = rstrip (CHR ''['' # R')"
    by (simp add: R strip_def lstrip_Cons_space isspace_newline lstrip_Cons_nonspace
        not_isspace_bracket)
  also have "\<dots> = rstrip ((CHR ''['' # R') @ [newline])"
    by (simp only: rstrip_snoc_space [OF isspace_newline])
  also have "\<dots> = rstrip M"
    by (simp add: M)
  finally show ?thesis by (simp add: R_def M_def)
qed

text \<open>
  C5. When every page's text is extracted, the text that PDF extraction returns is the
  pages' texts in page order, each preceded by a line reading \<open>[PAGE n]\<close> with the
  page's 1-based number \<open>n\<close> (a blank line parts a page from the next marker), with the
  whitespace at the end of the whole removed; the count returned is the number of
  pages. The first marker opens the text: \<open>strip\<close> removes the line break the loop
  writes before it.
\<close>

theorem extract_text_page_markers:
  "extract_text_from_pdf (Inr (map Inr page_texts)) =
     Inr (rstrip (marked_pages page_texts), length page_texts)"
  by (simp only: extract_text_from_pdf_def pages_loop_all_ok sum.case append_Nil
        strip_raw_pages marked_pages_def length_map)

text \<open>
  C6. The document identifier depends only on the filename and the first 1000
  characters of the text: two calls that agree on both return the same identifier.
\<close>

theorem generate_document_id_prefix:
  "f1 = f2 \<Longrightarrow> take 1000 t1 = take 1000 t2 \<Longrightarrow>
     generate_document_id f1 t1 = generate_document_id f2 t2"
  by (simp add: generate_document_id_def)

theorem generate_document_id_prefix_witness:
  "take 1000 (replicate 1000 (CHR ''a'') @ ''first'') = take 1000 (replicate 1000 (CHR ''a'') @ ''second'')
   \<and> replicate 1000 (CHR ''a'') @ ''first'' \<noteq> replicate 1000 (CHR ''a'') @ ''second''
   \<and> generate_document_id ''lease.pdf'' (replicate 1000 (CHR ''a'') @ ''first'')
       = generate_document_id ''lease.pdf'' (replicate 1000 (CHR ''a'') @ ''second'')"
proof -
  have h: "take 1000 (replicate 1000 (CHR ''a'') @ ''first'')
             = take 1000 (replicate 1000 (CHR ''a'') @ ''second'')"
    by simp
  show ?thesis
    using h generate_document_id_prefix [OF refl h, of "''lease.pdf''"] by simp
qed

section \<open>Citations, malformed replies\<close>



















lemma lease_store_documents: "get_all_documents lease_store = [lease_document]"
  by (simp add: get_all_documents_def lease_store_def store_document_def new_store_def
      lease_document_def)





text \<open>
  C2. When the provider's reply, stripped and freed of its code fence, fails to decode
  as JSON, \<open>extract_fields\<close> returns (and does not raise) the fields with both lists
  empty and every optional field absent.
\<close>

theorem extract_fields_malformed_reply:
  assumes "generate svc (extraction_prompt document_text) 0.1 2000 = Inr reply"
    and "json_loads rt (strip_fence reply) = Inl (JSONDecodeError m)"
  shows "extract_fields svc rt document_text =
           Inr \<lparr>parties = [], effective_date = None, term' = None, governing_law = None,
                payment_terms = None, termination' = None, auto_renewal = None,
                confidentiality = None, indemnity = None, liability_cap = None,
                signatories = []\<rparr>"
  using assms by (simp add: extract_fields_def ExtractedFields_default_def)

lemma generate_gemini_replying: "generate (gemini_replying reply) prompt t n = Inr (strip reply)"
  by (simp add: generate_def gemini_replying_def)

lemma strip_not_json: "strip ''not json'' = ''not json''"
  by (simp add: strip_def lstrip_def rstrip_def isspace_def)

lemma strip_fence_not_json: "strip_fence ''not json'' = ''not json''"
  by (simp add: strip_fence_def startswith_def)

lemma loads_not_json:
  "json_loads sample_runtime ''not json'' =
     Inl (JSONDecodeError ''Expecting value: line 1 column 1 (char 0)'')"
  by (simp add: sample_runtime_def sample_loads_def)

theorem extract_fields_malformed_reply_witness:
  "generate (gemini_replying ''not json'') (extraction_prompt lease_text) 0.1 2000 = Inr ''not json''
   \<and> json_loads sample_runtime (strip_fence ''not json'') =
       Inl (JSONDecodeError ''Expecting value: line 1 column 1 (char 0)'')
   \<and> extract_fields (gemini_replying ''not json'') sample_runtime lease_text =
       Inr \<lparr>parties = [], effective_date = None, term' = None, governing_law = None,
            payment_terms = None, termination' = None, auto_renewal = None,
            confidentiality = None, indemnity = None, liability_cap = None,
            signatories = []\<rparr>"
proof -
  have g: "generate (gemini_replying ''not json'') (extraction_prompt lease_text) 0.1 2000
             = Inr ''not json''"
    by (simp only: generate_gemini_replying strip_not_json)
  have l: "json_loads sample_runtime (strip_fence ''not json'') =
             Inl (JSONDecodeError ''Expecting value: line 1 column 1 (char 0)'')"
    by (simp only: strip_fence_not_json loads_not_json)
  show ?thesis
    using g l extract_fields_malformed_reply [OF g l] by simp
qed

text \<open>
  C3. When the provider's reply for an existing document fails to decode as JSON,
  \<open>audit_document\<close> returns exactly one finding: severity \<open>low\<close>, clause type
  \<open>other\<close>, the audited document's identifier, and the recommendation of a manual
  review.
\<close>

theorem audit_malformed_reply:
  assumes "get_document db did = Some doc"
    and "generate svc (audit_prompt (doc_text doc)) 0.1 2000 = Inr reply"
    and "json_loads rt (strip_fence reply) = Inl (JSONDecodeError m)"
  shows "audit_document svc rt db did =
           [\<lparr>severity = ''low'', clause_type = ''other'',
             description = ''Unable to complete full audit analysis'',
             evidence = ''Analysis incomplete'', finding_document_id = did,
             finding_page = None, recommendation = Some ''Manual review recommended''\<rparr>]"
  using assms by (simp add: audit_document_def)

lemma lease_store_get: "get_document lease_store ''doc-1'' = Some lease_document"
  by (simp add: get_document_def lease_store_def store_document_def new_store_def
      lease_document_def)

theorem audit_malformed_reply_witness:
  "get_document lease_store ''doc-1'' = Some lease_document
   \<and> generate (gemini_replying ''not json'') (audit_prompt (doc_text lease_document)) 0.1 2000
       = Inr ''not json''
   \<and> json_loads sample_runtime (strip_fence ''not json'') =
       Inl (JSONDecodeError ''Expecting value: line 1 column 1 (char 0)'')
   \<and> audit_document (gemini_replying ''not json'') sample_runtime lease_store ''doc-1'' =
       [\<lparr>severity = ''low'', clause_type = ''other'',
         description = ''Unable to complete full audit analysis'',
         evidence = ''Analysis incomplete'', finding_document_id = ''doc-1'',
         finding_page = None, recommendation = Some ''Manual review recommended''\<rparr>]"
proof -
  have g: "generate (gemini_replying ''not json'') (audit_prompt (doc_text lease_document)) 0.1 2000
             = Inr ''not json''"
    by (simp only: generate_gemini_replying strip_not_json)
  have l: "json_loads sample_runtime (strip_fence ''not json'') =
             Inl (JSONDecodeError ''Expecting value: line 1 column 1 (char 0)'')"
    by (simp only: strip_fence_not_json loads_not_json)
  show ?thesis
    using lease_store_get g l audit_malformed_reply [OF lease_store_get g l] by simp
qed

section \<open>The audit route\<close>

lemma documents_increment_metric: "documents (increment_metric db name) = documents db"
  by (simp add: increment_metric_def Let_def)












section \<open>Question answering: the selection of documents\<close>

lemma select_unknown_ids:
  "ids \<noteq> [] \<Longrightarrow> \<forall>did\<in>set ids. \<not> document_exists db did \<Longrightarrow>
     select_documents db (Some ids) = []"
  by (simp add: select_documents_def map_filter_def)

lemma select_empty_store: "documents db = [] \<Longrightarrow> select_documents db selection = []"
  by (cases selection)
     (simp_all add: select_documents_def get_all_documents_def document_exists_def map_filter_def)

lemma select_empty_selection: "select_documents db (Some []) = get_all_documents db"
  by (simp add: select_documents_def)


lemma map_filter_Nil_iff: "List.map_filter f xs = [] \<longleftrightarrow> (\<forall>x\<in>set xs. f x = None)"
  by (induction xs) (auto simp: map_filter_simps split: option.splits)

lemma resolves_none_iff:
  "select_documents db selection = [] \<longleftrightarrow>
     ((selection = None \<or> selection = Some []) \<and> documents db = [])
     \<or> (\<exists>ids. selection = Some ids \<and> ids \<noteq> [] \<and> (\<forall>did\<in>set ids. \<not> document_exists db did))"
proof (cases selection)
  case None
  then show ?thesis
    by (simp add: select_documents_def get_all_documents_def)
next
  case (Some ids)
  show ?thesis
  proof (cases "ids = []")
    case True
    then show ?thesis
      using Some by (simp add: select_documents_def get_all_documents_def)
  next
    case False
    then show ?thesis
      using Some
      by (auto simp: select_documents_def map_filter_Nil_iff document_exists_def get_document_def)
  qed
qed

text \<open>
  C7, as the code has it. For every question, \<open>answer_question\<close> with a non-empty list
  of identifiers none of which is in the store returns the fixed answer, with no
  citation and no confidence: the very result it returns, whatever the selection, when
  the store holds no document.
\<close>

theorem answer_unknown_ids:
  assumes "ids \<noteq> []" and "\<forall>did\<in>set ids. \<not> document_exists db did"
    and "documents empty_db = []"
  shows "answer_question svc db question (Some ids) =
           \<lparr>answer = ''No documents found. Please upload documents first.'', citations = [],
            confidence = None\<rparr>
         \<and> answer_question svc db question (Some ids)
             = answer_question svc empty_db question selection"
  using assms
  by (simp add: answer_question_def select_unknown_ids select_empty_store no_documents_message_def)

lemma strip_rent: "strip ''Rent is due monthly.'' = ''Rent is due monthly.''"
  by (simp add: strip_def lstrip_def rstrip_def isspace_def)

lemma answer_lease_all:
  "select_documents lease_store selection = [lease_document] \<Longrightarrow>
   answer_question (gemini_replying ''Rent is due monthly.'') lease_store ''When is rent due?'' selection =
     \<lparr>answer = ''Rent is due monthly.'', citations = [], confidence = Some 0.85\<rparr>"
  by (simp add: answer_question_def generate_gemini_replying strip_rent extract_citations_def
      lease_document_def startswith_def)

text \<open>
  C7 as stated fails for the empty list, a list in which no identifier is in the store:
  with the lease stored, the provider is asked and its reply returned, while the empty
  store gives the fixed answer.
\<close>

theorem answer_empty_list_counterexample:
  "answer_question (gemini_replying ''Rent is due monthly.'') lease_store ''When is rent due?'' (Some []) =
     \<lparr>answer = ''Rent is due monthly.'', citations = [], confidence = Some 0.85\<rparr>
   \<and> answer_question (gemini_replying ''Rent is due monthly.'') new_store ''When is rent due?'' (Some []) =
     \<lparr>answer = ''No documents found. Please upload documents first.'', citations = [],
      confidence = None\<rparr>"
proof -
  have "select_documents lease_store (Some []) = [lease_document]"
    by (simp add: select_empty_selection lease_store_documents)
  moreover have "select_documents new_store (Some []) = []"
    by (simp add: select_empty_store new_store_def)
  ultimately show ?thesis
    by (simp add: answer_lease_all) (simp add: answer_question_def no_documents_message_def)
qed

lemma lease_store_unknown: "\<not> document_exists lease_store ''doc-9''"
  by (simp add: document_exists_def lease_store_def store_document_def new_store_def)

theorem answer_unknown_ids_witness:
  "[''doc-9''] \<noteq> [] \<and> \<not> document_exists lease_store ''doc-9''
   \<and> documents new_store = []
   \<and> answer_question (gemini_replying ''Rent is due monthly.'') lease_store ''When is rent due?''
        (Some [''doc-9'']) =
       \<lparr>answer = ''No documents found. Please upload documents first.'', citations = [],
        confidence = None\<rparr>
   \<and> answer_question (gemini_replying ''Rent is due monthly.'') lease_store ''When is rent due?''
        (Some [''doc-9''])
       = answer_question (gemini_replying ''Rent is due monthly.'') new_store ''When is rent due?'' None"
proof -
  have a: "[''doc-9''] \<noteq> []" by simp
  have b: "\<forall>did\<in>set [''doc-9'']. \<not> document_exists lease_store did"
    by (simp add: lease_store_unknown)
  have c: "documents new_store = []"
    by (simp add: new_store_def)
  from a lease_store_unknown c
    answer_unknown_ids [OF a b c, of "gemini_replying ''Rent is due monthly.''"
        "''When is rent due?''" None]
  show ?thesis
    by blast
qed

lemma stream_none_selected:
  assumes "select_documents db selection = []"
  shows "answer_question_stream svc db question selection =
           [''No documents found. Please upload documents first.'']
         \<and> event_generator (answer_question_stream svc db question selection) =
             [''data: No documents found. Please upload documents first.'' @ [newline, newline],
              ''data: [DONE]'' @ [newline, newline]]"
  using assms
  by (simp add: answer_question_stream_def no_documents_message_def event_generator_def)

lemma get_ask_stream_no_documents:
  assumes "question \<noteq> []"
    and "select_documents db
           (case raw_ids of None \<Rightarrow> None
            | Some ids \<Rightarrow> if ids \<noteq> [] then Some (split_on (CHR '','') ids) else None) = []"
  shows "get_ask_stream svc db question raw_ids =
           Inr [''data: No documents found. Please upload documents first.'' @ [newline, newline],
                ''data: [DONE]'' @ [newline, newline]]"
proof -
  have "event_generator
          (answer_question_stream svc db question
             (case raw_ids of None \<Rightarrow> None
              | Some ids \<Rightarrow> if ids \<noteq> [] then Some (split_on (CHR '','') ids) else None)) =
        [''data: No documents found. Please upload documents first.'' @ [newline, newline],
         ''data: [DONE]'' @ [newline, newline]]"
    using stream_none_selected [OF assms(2)] by (rule conjunct2)
  then show ?thesis
    using assms(1) by (simp only: get_ask_stream_def if_False)
qed

text \<open>
  C9. When the streaming path resolves no document (the store is empty, or a non-empty
  list of identifiers names only unknown ones: \<open>resolves_none_iff\<close>), the generator
  yields exactly one fragment, the fixed message, and ends; the transport then emits
  that fragment as one event followed by exactly one \<open>data: [DONE]\<close> event.
\<close>

theorem stream_no_documents:
  assumes "select_documents db selection = []"
  shows "answer_question_stream svc db question selection =
           [''No documents found. Please upload documents first.'']
         \<and> event_generator (answer_question_stream svc db question selection) =
             [''data: No documents found. Please upload documents first.'' @ [newline, newline],
              ''data: [DONE]'' @ [newline, newline]]"
  using assms by (rule stream_none_selected)

theorem stream_no_documents_witness:
  "select_documents lease_store (Some [''doc-9'']) = []
   \<and> select_documents new_store None = []
   \<and> answer_question_stream (gemini_replying ''Rent is due monthly.'') lease_store
        ''When is rent due?'' (Some [''doc-9'']) =
       [''No documents found. Please upload documents first.'']
   \<and> event_generator (answer_question_stream (gemini_replying ''Rent is due monthly.'') lease_store
        ''When is rent due?'' (Some [''doc-9''])) =
       [''data: No documents found. Please upload documents first.'' @ [newline, newline],
        ''data: [DONE]'' @ [newline, newline]]"
proof -
  have a: "select_documents lease_store (Some [''doc-9'']) = []"
    by (simp add: select_unknown_ids lease_store_unknown)
  have b: "select_documents new_store None = []"
    by (simp add: select_empty_store new_store_def)
  from a b stream_no_documents [OF a, of "gemini_replying ''Rent is due monthly.''"
        "''When is rent due?''"]
  show ?thesis
    by blast
qed




section \<open>Ingestion\<close>

lemma length_hexdigest: "length (hexdigest bs) = 2 * length bs"
  by (induction bs) (simp_all add: hexdigest_def)

lemma length_md5: "length (md5 bs) = 16"
proof -
  obtain a b c d where
    "foldl md5_block (0x67452301, 0xefcdab89, 0x98badcfe, 0x10325476)
       (chunk 16 (map le_word (chunk 4 (md5_pad bs)))) = (a, b, c, d)"
    using prod_cases4 by blast
  then show ?thesis
    by (simp add: md5_def le_bytes_def)
qed

lemma length_generate_document_id: "length (generate_document_id f t) = 32"
  by (simp add: generate_document_id_def Let_def length_hexdigest length_md5)

lemma ingest_loop_result:
  "\<exists>db'. ingest_loop db files ids n errs =
           (db', ids @ map upload_id (filter upload_ok files),
            n + length (filter upload_ok files),
            errs @ map upload_error (filter (\<lambda>f. \<not> upload_ok f) files))"
proof (induction files arbitrary: db ids n errs)
  case Nil
  show ?case by simp
next
  case (Cons f fs)
  show ?case
  proof (cases "endswith (upload_filename f) ''.pdf''")
    case False
    then have "\<not> upload_ok f"
      and "upload_error f = ''Skipped '' @ upload_filename f @ '' - not a PDF''"
      by (simp_all add: upload_ok_def upload_error_def)
    then show ?thesis
      using False Cons.IH [of db ids n "errs @ [''Skipped '' @ upload_filename f @ '' - not a PDF'']"]
      by simp
  next
    case True
    show ?thesis
    proof (cases "process_upload f")
      case (Inl e)
      then have "\<not> upload_ok f"
        and "upload_error f = ''Error processing '' @ upload_filename f @ '': '' @ str_exn e"
        using True by (simp_all add: upload_ok_def upload_error_def)
      then show ?thesis
        using True Inl
          Cons.IH [of db ids n
            "errs @ [''Error processing '' @ upload_filename f @ '': '' @ str_exn e]"]
        by simp
    next
      case (Inr r)
      obtain t k where r: "r = (t, k)" by (cases r)
      have "upload_ok f"
        and "upload_id f = generate_document_id (upload_filename f) t"
        using True Inr r by (simp_all add: upload_ok_def upload_id_def)
      then show ?thesis
        using True Inr r
          Cons.IH [of "store_document db (generate_document_id (upload_filename f) t)
                         (upload_filename f) t (Some [(''page_count'', k)]) (stored_at f)"
                      "ids @ [generate_document_id (upload_filename f) t]" "n + 1" errs]
        by simp
    qed
  qed
qed

lemma ingest_documents_result:
  "fst (ingest_documents db files) =
     (if files = [] then Inl (HTTPException 400 ''No files provided'')
      else if filter upload_ok files = []
        then Inl (HTTPException 400
                    (''No valid PDF files processed. Errors: ''
                     @ join ''; '' (map upload_error files)))
      else Inr \<lparr>ingested_document_ids = map upload_id (filter upload_ok files),
                message = ''Successfully ingested '' @ str_nat (length (filter upload_ok files))
                          @ '' document(s)'',
                ingested_count = length (filter upload_ok files)\<rparr>)"
proof (cases "files = []")
  case True
  then show ?thesis by (simp add: ingest_documents_def)
next
  case False
  obtain db' where loop: "ingest_loop db files [] 0 [] =
      (db', map upload_id (filter upload_ok files), length (filter upload_ok files),
       map upload_error (filter (\<lambda>f. \<not> upload_ok f) files))"
    using ingest_loop_result [of db files "[]" 0 "[]"] by auto
  show ?thesis
  proof (cases "filter upload_ok files = []")
    case True
    then have "filter (\<lambda>f. \<not> upload_ok f) files = files"
      by (simp add: filter_empty_conv)
    then show ?thesis
      using False True loop by (simp add: ingest_documents_def)
  next
    case ok: False
    then show ?thesis
      using False loop by (simp add: ingest_documents_def)
  qed
qed

text \<open>
  C8, as the code has it. A batch with no file is refused with status 400. Otherwise,
  when at least one file is processed the call succeeds: the response lists the
  identifiers of the processed files, counts them, and says so in its message; the
  messages collected for the other files are not part of it. The call fails, with
  status 400, exactly when no file is processed, and only then does the detail list
  the collected messages, one per file.
\<close>

theorem ingest_partial_batch:
  "fst (ingest_documents db files) =
     (if files = [] then Inl (HTTPException 400 ''No files provided'')
      else if filter upload_ok files = []
        then Inl (HTTPException 400
                    (''No valid PDF files processed. Errors: ''
                     @ join ''; '' (map upload_error files)))
      else Inr \<lparr>ingested_document_ids = map upload_id (filter upload_ok files),
                message = ''Successfully ingested '' @ str_nat (length (filter upload_ok files))
                          @ '' document(s)'',
                ingested_count = length (filter upload_ok files)\<rparr>)"
  by (rule ingest_documents_result)

lemma str_nat_1: "str_nat 1 = ''1''"
  by (simp add: digit_char_def)

lemma lease_upload_text:
  "process_upload lease_upload = Inr (''[PAGE 1]'' @ [newline] @ ''Lease of the barn.'', 1)"
  by (simp add: process_upload_def lease_upload_def extract_text_from_pdf_def strip_def
      lstrip_def rstrip_def isspace_def newline_def digit_char_def)

lemma lease_upload_ok: "upload_ok lease_upload"
  by (simp add: upload_ok_def lease_upload_text) (simp add: lease_upload_def endswith_def)

lemma notes_upload_not_ok: "\<not> upload_ok notes_upload"
  by (simp add: upload_ok_def notes_upload_def endswith_def)

lemma notes_upload_error: "upload_error notes_upload = ''Skipped notes.txt - not a PDF''"
  by (simp add: upload_error_def notes_upload_def endswith_def)

lemma lease_upload_id:
  "upload_id lease_upload =
     generate_document_id ''lease.pdf'' (''[PAGE 1]'' @ [newline] @ ''Lease of the barn.'')"
  by (simp add: upload_id_def lease_upload_text) (simp add: lease_upload_def)

theorem ingest_partial_batch_witness:
  "fst (ingest_documents new_store [lease_upload, notes_upload]) =
     Inr \<lparr>ingested_document_ids =
            [generate_document_id ''lease.pdf'' (''[PAGE 1]'' @ [newline] @ ''Lease of the barn.'')],
          message = ''Successfully ingested 1 document(s)'', ingested_count = 1\<rparr>
   \<and> fst (ingest_documents new_store [notes_upload]) =
       Inl (HTTPException 400
              ''No valid PDF files processed. Errors: Skipped notes.txt - not a PDF'')"
proof -
  have a: "fst (ingest_documents new_store [lease_upload, notes_upload]) =
     Inr \<lparr>ingested_document_ids =
            [generate_document_id ''lease.pdf'' (''[PAGE 1]'' @ [newline] @ ''Lease of the barn.'')],
          message = ''Successfully ingested 1 document(s)'', ingested_count = 1\<rparr>"
    unfolding ingest_partial_batch [of new_store "[lease_upload, notes_upload]"]
    by (simp add: lease_upload_ok notes_upload_not_ok lease_upload_id digit_char_def)
  have b: "fst (ingest_documents new_store [notes_upload]) =
       Inl (HTTPException 400
              ''No valid PDF files processed. Errors: Skipped notes.txt - not a PDF'')"
    unfolding ingest_partial_batch [of new_store "[notes_upload]"]
    by (simp add: notes_upload_not_ok notes_upload_error)
  from a b show ?thesis ..
qed

text \<open>
  C8 as stated fails: of a lease and a text file the lease is processed and the call
  succeeds with a count of 1, but none of the three fields of the response carries
  the message collected for the text file.
\<close>

theorem ingest_warning_not_attached_counterexample:
  "upload_ok lease_upload \<and> \<not> upload_ok notes_upload
   \<and> upload_error notes_upload = ''Skipped notes.txt - not a PDF''
   \<and> fst (ingest_documents new_store [lease_upload, notes_upload]) =
       Inr \<lparr>ingested_document_ids =
              [generate_document_id ''lease.pdf'' (''[PAGE 1]'' @ [newline] @ ''Lease of the barn.'')],
            message = ''Successfully ingested 1 document(s)'', ingested_count = 1\<rparr>
   \<and> \<not> attached
         \<lparr>ingested_document_ids =
            [generate_document_id ''lease.pdf'' (''[PAGE 1]'' @ [newline] @ ''Lease of the barn.'')],
          message = ''Successfully ingested 1 document(s)'', ingested_count = 1\<rparr>
         ''Skipped notes.txt - not a PDF''"
proof -
  have r: "fst (ingest_documents new_store [lease_upload, notes_upload]) =
       Inr \<lparr>ingested_document_ids =
              [generate_document_id ''lease.pdf'' (''[PAGE 1]'' @ [newline] @ ''Lease of the barn.'')],
            message = ''Successfully ingested 1 document(s)'', ingested_count = 1\<rparr>"
    unfolding ingest_documents_result [of new_store "[lease_upload, notes_upload]"]
    by (simp add: lease_upload_ok notes_upload_not_ok lease_upload_id digit_char_def)
  have "length (generate_document_id ''lease.pdf'' (''[PAGE 1]'' @ [newline] @ ''Lease of the barn.''))
          \<noteq> length ''Skipped notes.txt - not a PDF''"
    by (simp only: length_generate_document_id) simp
  then have ne: "''Skipped notes.txt - not a PDF''
          \<noteq> generate_document_id ''lease.pdf'' (''[PAGE 1]'' @ [newline] @ ''Lease of the barn.'')"
    by (rule contrapos_nn) (erule arg_cong [where f = length, symmetric])
  have nc: "\<not> str_contains ''Successfully ingested 1 document(s)'' ''Skipped notes.txt - not a PDF''"
    by (simp add: startswith_def)
  have na: "\<not> attached
         \<lparr>ingested_document_ids =
            [generate_document_id ''lease.pdf'' (''[PAGE 1]'' @ [newline] @ ''Lease of the barn.'')],
          message = ''Successfully ingested 1 document(s)'', ingested_count = 1\<rparr>
         ''Skipped notes.txt - not a PDF''"
    using ne nc by (simp add: attached_def)
  show ?thesis
    by (intro conjI) (rule lease_upload_ok notes_upload_not_ok notes_upload_error r na)+
qed

section \<open>The store keeps one document per identifier\<close>

lemma update_entries:
  "e \<in> set (AList.update k v al) \<Longrightarrow> e = (k, v) \<or> e \<in> set al"
  by (induction al) (auto split: if_splits)

lemma well_keyed_new_store: "well_keyed (documents new_store)"
  by (simp add: well_keyed_def new_store_def)

lemma well_keyed_store_document:
  assumes "well_keyed (documents db)"
  shows "well_keyed (documents (store_document db did fname t meta now))"
proof -
  have "distinct (map fst (AList.update did v (documents db)))" for v
    using assms by (simp add: well_keyed_def distinct_update)
  moreover have "list_all (\<lambda>kd. doc_id (snd kd) = fst kd) (AList.update did v (documents db))"
    if "doc_id v = did" for v
    using assms that by (auto simp: well_keyed_def list_all_iff dest!: update_entries)
  ultimately show ?thesis
    by (simp add: well_keyed_def store_document_def)
qed

lemma well_keyed_increment_metric:
  "well_keyed (documents db) \<Longrightarrow> well_keyed (documents (increment_metric db name))"
  by (simp add: documents_increment_metric)

lemma well_keyed_ingest_loop:
  "well_keyed (documents db) \<Longrightarrow> well_keyed (documents (fst (ingest_loop db files ids n errs)))"
  by (induction files arbitrary: db ids n errs)
     (auto simp: well_keyed_store_document split: sum.splits)

lemma keys_of_well_keyed:
  "list_all (\<lambda>kd. doc_id (snd kd) = fst kd) al \<Longrightarrow> map doc_id (map snd al) = map fst al"
  by (induction al) simp_all

lemma well_keyed_distinct_ids:
  assumes "well_keyed (documents db)"
  shows "distinct (map doc_id (get_all_documents db))"
proof -
  have "list_all (\<lambda>kd. doc_id (snd kd) = fst kd) (documents db)"
    using assms by (simp add: well_keyed_def)
  then have "map doc_id (get_all_documents db) = map fst (documents db)"
    unfolding get_all_documents_def by (rule keys_of_well_keyed)
  moreover have "distinct (map fst (documents db))"
    using assms by (simp add: well_keyed_def)
  ultimately show ?thesis
    by (simp only:)
qed

end
